theory Spec2Isabelle
  imports Main
begin

section \<open>Python values of the demonstration module\<close>

text \<open>
  The module \<open>demo_python.py\<close> has two functions: \<open>hello_world()\<close> returns a string literal
  and \<open>add_numbers(a, b)\<close> returns \<open>a + b\<close>. The operator \<open>+\<close> is dispatched by the Python
  runtime on the types of its operands, so the embedding carries a universe of runtime
  values and the runtime's rule for \<open>+\<close> on it. The universe holds \<open>None\<close>, \<open>bool\<close>,
  \<open>int\<close> (unbounded), \<open>float\<close> (IEEE 754 binary64), \<open>str\<close>, and instances of classes that a
  program defines. \<open>PObj c i\<close> is the instance \<open>i\<close> of the class \<open>c\<close>; such a class derives
  from \<open>object\<close> alone and defines at most the methods \<open>__add__\<close> and \<open>__radd__\<close>.
  Values of other types (lists, tuples, bytes and so on) are outside the universe, and
  no statement below is about them.

  A finite float \<open>Finite s m e\<close> stands for \<open>(-1)\<^sup>s * m * 2\<^sup>e\<close>; a binary64 value has
  \<open>m < 2\<^sup>5\<^sup>3\<close>, \<open>-1074 \<le> e\<close> and a magnitude below \<open>2\<^sup>1\<^sup>0\<^sup>2\<^sup>4\<close>. All NaNs are one value.
\<close>

datatype pyfloat = Finite bool nat int | PosInf | NegInf | NaN

datatype pyval = PNone | PBool bool | PInt int | PFloat pyfloat | PStr string | PObj nat nat

text \<open>\<open>OtherError n\<close> is an exception of any other class, by the name of the class.\<close>

datatype pyerror = TypeError | OverflowError | AssertionError | OtherError string

text \<open>
  The state of the interpreter that Python code can reach: what was written to standard
  output, and the module-level variables.
\<close>

record world =
  stdout :: string
  globals :: "string \<Rightarrow> pyval option"

type_synonym 'a py = "world \<Rightarrow> (pyerror + 'a) \<times> world"

definition py_return :: "'a \<Rightarrow> 'a py" where
  "py_return v w = (Inr v, w)"

definition py_raise :: "pyerror \<Rightarrow> 'a py" where
  "py_raise err w = (Inl err, w)"

definition py_bind :: "'a py \<Rightarrow> ('a \<Rightarrow> 'b py) \<Rightarrow> 'b py" where
  "py_bind m f w = (case m w of (Inl err, w') \<Rightarrow> (Inl err, w') | (Inr v, w') \<Rightarrow> f v w')"

subsection \<open>Binary64 arithmetic\<close>

fun bit_length :: "nat \<Rightarrow> nat" where
  "bit_length n = (if n = 0 then 0 else Suc (bit_length (n div 2)))"

declare bit_length.simps [simp del]

definition signed :: "bool \<Rightarrow> nat \<Rightarrow> int" where
  "signed s m = (if s then - int m else int m)"

text \<open>
  Rounding of the magnitude \<open>m * 2\<^sup>e\<close> to 53 significant bits, to nearest, ties to even.
  A carry out of the 53 bits gives \<open>2\<^sup>5\<^sup>2\<close> at the next exponent.
\<close>

definition round53 :: "nat \<Rightarrow> int \<Rightarrow> nat \<times> int" where
  "round53 m e =
     (let k = bit_length m in
      if k \<le> 53 then (m, e)
      else
        let s = k - 53;
            q = m div 2 ^ s;
            r = m mod 2 ^ s;
            q' = (if 2 ^ s < 2 * r \<or> (2 * r = 2 ^ s \<and> q mod 2 = 1) then q + 1 else q)
        in if q' = 2 ^ 53 then (2 ^ 52, e + int s + 1) else (q', e + int s))"

text \<open>The magnitude \<open>m * 2\<^sup>e\<close> is \<open>2\<^sup>1\<^sup>0\<^sup>2\<^sup>4\<close> or more: beyond the largest binary64 value.\<close>

definition too_large :: "nat \<Rightarrow> int \<Rightarrow> bool" where
  "too_large m e = (1024 < int (bit_length m) + e)"

text \<open>
  Float addition: the exact sum of the two values, rounded once. An overflow gives an
  infinity (Python raises nothing on float addition). A zero sum is \<open>-0.0\<close> only when both
  operands are \<open>-0.0\<close>.
\<close>

fun float_add :: "pyfloat \<Rightarrow> pyfloat \<Rightarrow> pyfloat" where
  "float_add NaN y = NaN"
| "float_add x NaN = NaN"
| "float_add PosInf NegInf = NaN"
| "float_add NegInf PosInf = NaN"
| "float_add PosInf y = PosInf"
| "float_add x PosInf = PosInf"
| "float_add NegInf y = NegInf"
| "float_add x NegInf = NegInf"
| "float_add (Finite s1 m1 e1) (Finite s2 m2 e2) =
     (let e = min e1 e2;
          x = signed s1 m1 * 2 ^ nat (e1 - e) + signed s2 m2 * 2 ^ nat (e2 - e)
      in if x = 0 then Finite (s1 \<and> s2) 0 0
         else
           let (m, e') = round53 (nat \<bar>x\<bar>) e
           in if too_large m e' then (if x < 0 then NegInf else PosInf)
              else Finite (x < 0) m e')"

text \<open>
  Conversion of an \<open>int\<close> operand to float, as the float type's \<open>+\<close> does before adding:
  correctly rounded, and \<open>OverflowError\<close> when the rounded value is out of range.
\<close>

definition int_to_float :: "int \<Rightarrow> pyerror + pyfloat" where
  "int_to_float i =
     (let (m, e) = round53 (nat \<bar>i\<bar>) 0
      in if too_large m e then Inl OverflowError else Inr (Finite (i < 0) m e))"

subsection \<open>The operator \<open>+\<close>\<close>

text \<open>\<open>bool\<close> is a subtype of \<open>int\<close>: \<open>True\<close> counts as 1 and \<open>False\<close> as 0.\<close>

fun as_int :: "pyval \<Rightarrow> int option" where
  "as_int (PInt i) = Some i"
| "as_int (PBool b) = Some (if b then 1 else 0)"
| "as_int v = None"

text \<open>
  \<open>+\<close> on two values of the built-in types: concatenation of two strings, float addition
  when an operand is a float (the other, an \<open>int\<close>, converted first), \<open>int\<close> addition of
  \<open>int\<close> and \<open>bool\<close>, and \<open>TypeError\<close> for every other pair. It touches no state.
\<close>

fun builtin_add :: "pyval \<Rightarrow> pyval \<Rightarrow> pyerror + pyval" where
  "builtin_add (PStr s) (PStr t) = Inr (PStr (s @ t))"
| "builtin_add (PFloat f) (PFloat g) = Inr (PFloat (float_add f g))"
| "builtin_add (PFloat f) b =
     (case as_int b of
        None \<Rightarrow> Inl TypeError
      | Some j \<Rightarrow> (case int_to_float j of
                    Inl err \<Rightarrow> Inl err
                  | Inr g \<Rightarrow> Inr (PFloat (float_add f g))))"
| "builtin_add a (PFloat g) =
     (case as_int a of
        None \<Rightarrow> Inl TypeError
      | Some i \<Rightarrow> (case int_to_float i of
                    Inl err \<Rightarrow> Inl err
                  | Inr f \<Rightarrow> Inr (PFloat (float_add f g))))"
| "builtin_add a b =
     (case as_int a of
        None \<Rightarrow> Inl TypeError
      | Some i \<Rightarrow> (case as_int b of
                    None \<Rightarrow> Inl TypeError
                  | Some j \<Rightarrow> Inr (PInt (i + j))))"

text \<open>
  A method \<open>__add__\<close> or \<open>__radd__\<close> of a class takes the instance and the other operand,
  runs in the interpreter's state, and returns a value, returns \<open>NotImplemented\<close> (here
  \<open>None\<close>) or raises. A class without the method behaves as if it returned
  \<open>NotImplemented\<close>. The classes of a program are a table from class to methods.
\<close>

type_synonym pymethod = "pyval \<Rightarrow> pyval \<Rightarrow> (pyval option) py"

record pyclass =
  add_method :: "pymethod option"
  radd_method :: "pymethod option"

type_synonym classes = "nat \<Rightarrow> pyclass"

fun call_method :: "pymethod option \<Rightarrow> pyval \<Rightarrow> pyval \<Rightarrow> (pyval option) py" where
  "call_method None self other = py_return None"
| "call_method (Some m) self other = m self other"

text \<open>When every method tried has returned \<open>NotImplemented\<close>, \<open>+\<close> raises \<open>TypeError\<close>.\<close>

fun or_type_error :: "pyval option \<Rightarrow> pyval py" where
  "or_type_error (Some v) = py_return v"
| "or_type_error None = py_raise TypeError"

text \<open>
  \<open>a + b\<close>. With an instance on the left, its \<open>__add__\<close> is tried first; then, unless both
  operands are of one class, the \<open>__radd__\<close> of an instance on the right. A built-in left
  operand gives way to the \<open>__radd__\<close> of an instance on the right, since its own \<open>+\<close>
  does not accept the instance.
\<close>

fun py_add :: "classes \<Rightarrow> pyval \<Rightarrow> pyval \<Rightarrow> pyval py" where
  "py_add cs (PObj c i) (PObj d j) =
     py_bind (call_method (add_method (cs c)) (PObj c i) (PObj d j)) (\<lambda>r.
       case r of
         Some v \<Rightarrow> py_return v
       | None \<Rightarrow>
           if c = d then py_raise TypeError
           else py_bind (call_method (radd_method (cs d)) (PObj d j) (PObj c i)) or_type_error)"
| "py_add cs (PObj c i) b =
     py_bind (call_method (add_method (cs c)) (PObj c i) b) or_type_error"
| "py_add cs a (PObj d j) =
     py_bind (call_method (radd_method (cs d)) (PObj d j) a) or_type_error"
| "py_add cs a b = (\<lambda>w. (builtin_add a b, w))"

subsection \<open>The operator \<open>==\<close>\<close>

text \<open>
  Floats compare by value: \<open>-0.0 == 0.0\<close>, and a NaN is equal to nothing, itself included.
  An \<open>int\<close> and a float compare exactly, without conversion. An instance is equal to itself
  only.
\<close>

fun float_eq :: "pyfloat \<Rightarrow> pyfloat \<Rightarrow> bool" where
  "float_eq (Finite s1 m1 e1) (Finite s2 m2 e2) =
     (let e = min e1 e2
      in signed s1 m1 * 2 ^ nat (e1 - e) = signed s2 m2 * 2 ^ nat (e2 - e))"
| "float_eq PosInf PosInf = True"
| "float_eq NegInf NegInf = True"
| "float_eq x y = False"

fun float_eq_int :: "pyfloat \<Rightarrow> int \<Rightarrow> bool" where
  "float_eq_int (Finite s m e) i = (signed s m * 2 ^ nat e = i * 2 ^ nat (- e))"
| "float_eq_int x i = False"

fun py_eq :: "pyval \<Rightarrow> pyval \<Rightarrow> bool" where
  "py_eq PNone PNone = True"
| "py_eq (PStr s) (PStr t) = (s = t)"
| "py_eq (PObj c i) (PObj d j) = (c = d \<and> i = j)"
| "py_eq (PFloat f) (PFloat g) = float_eq f g"
| "py_eq (PFloat f) b = (case as_int b of None \<Rightarrow> False | Some j \<Rightarrow> float_eq_int f j)"
| "py_eq a (PFloat g) = (case as_int a of None \<Rightarrow> False | Some i \<Rightarrow> float_eq_int g i)"
| "py_eq a b =
     (case as_int a of
        None \<Rightarrow> False
      | Some i \<Rightarrow> (case as_int b of None \<Rightarrow> False | Some j \<Rightarrow> i = j))"

fun is_str :: "pyval \<Rightarrow> bool" where
  "is_str (PStr s) = True"
| "is_str v = False"

fun is_float :: "pyval \<Rightarrow> bool" where
  "is_float (PFloat f) = True"
| "is_float v = False"

fun is_int :: "pyval \<Rightarrow> bool" where
  "is_int (PInt i) = True"
| "is_int (PBool b) = True"
| "is_int v = False"

definition is_number :: "pyval \<Rightarrow> bool" where
  "is_number v = (is_int v \<or> is_float v)"

fun is_builtin :: "pyval \<Rightarrow> bool" where
  "is_builtin (PObj c i) = False"
| "is_builtin v = True"

subsection \<open>Text of a value\<close>

fun nat_to_dec :: "nat \<Rightarrow> string" where
  "nat_to_dec n =
     (if n < 10 then [''0123456789'' ! n]
      else nat_to_dec (n div 10) @ [''0123456789'' ! (n mod 10)])"

declare nat_to_dec.simps [simp del]

definition int_to_dec :: "int \<Rightarrow> string" where
  "int_to_dec i = (if i < 0 then CHR ''-'' # nat_to_dec (nat (- i)) else nat_to_dec (nat i))"

text \<open>
  \<open>str(v)\<close>, which \<open>print\<close> and an f-string field without a format apply. The shortest
  decimal text of a float and the default text of an instance are computed by the runtime
  and are a parameter here.
\<close>

fun py_str :: "(pyval \<Rightarrow> string) \<Rightarrow> pyval \<Rightarrow> string" where
  "py_str fr PNone = ''None''"
| "py_str fr (PBool b) = (if b then ''True'' else ''False'')"
| "py_str fr (PInt i) = int_to_dec i"
| "py_str fr (PFloat f) = fr (PFloat f)"
| "py_str fr (PStr s) = s"
| "py_str fr (PObj c i) = fr (PObj c i)"

subsection \<open>Statements\<close>

definition py_print :: "(pyval \<Rightarrow> string) \<Rightarrow> pyval \<Rightarrow> pyval py" where
  "py_print fr v w = (Inr PNone, w\<lparr>stdout := stdout w @ py_str fr v @ [CHR 0x0A]\<rparr>)"

definition py_assert :: "bool \<Rightarrow> pyval py" where
  "py_assert c w = (if c then (Inr PNone, w) else (Inl AssertionError, w))"

section \<open>The module\<close>

definition hello_world :: "pyval py" where
  "hello_world w = (Inr (PStr ''Hello, World from Python CI!''), w)"

definition add_numbers :: "classes \<Rightarrow> pyval \<Rightarrow> pyval \<Rightarrow> pyval py" where
  "add_numbers cs a b = py_add cs a b"

text \<open>
  The module's last statement: under the name \<open>__main__\<close> it prints the greeting and the
  line built by the f-string; under any other name (an import) it does nothing.
\<close>

definition module_main :: "(pyval \<Rightarrow> string) \<Rightarrow> classes \<Rightarrow> string \<Rightarrow> pyval py" where
  "module_main fr cs name =
     (if name = ''__main__'' then
        py_bind hello_world (\<lambda>g.
        py_bind (py_print fr g) (\<lambda>_.
        py_bind (add_numbers cs (PInt 2) (PInt 3)) (\<lambda>r.
        py_print fr (PStr (''2 + 3 = '' @ py_str fr r)))))
      else py_return PNone)"

text \<open>
  Running the file as a program: the exit status is 0 when the module's code ends, and 1
  when an exception reaches the top level.
\<close>

definition run_program :: "(pyval \<Rightarrow> string) \<Rightarrow> classes \<Rightarrow> world \<Rightarrow> nat \<times> world" where
  "run_program fr cs w =
     (case module_main fr cs ''__main__'' w of
        (Inl err, w') \<Rightarrow> (1, w')
      | (Inr v, w') \<Rightarrow> (0, w'))"

subsection \<open>The tests of \<open>test_demo_python.py\<close>\<close>

definition test_hello_world :: "pyval py" where
  "test_hello_world =
     py_bind hello_world (\<lambda>result.
     py_bind (py_assert (py_eq result (PStr ''Hello, World from Python CI!''))) (\<lambda>_.
     py_assert (is_str result)))"

definition test_add_numbers :: "classes \<Rightarrow> pyval py" where
  "test_add_numbers cs =
     py_bind (add_numbers cs (PInt 2) (PInt 3)) (\<lambda>r1.
     py_bind (py_assert (py_eq r1 (PInt 5))) (\<lambda>_.
     py_bind (add_numbers cs (PInt 0) (PInt 0)) (\<lambda>r2.
     py_bind (py_assert (py_eq r2 (PInt 0))) (\<lambda>_.
     py_bind (add_numbers cs (PInt (- 1)) (PInt 1)) (\<lambda>r3.
     py_bind (py_assert (py_eq r3 (PInt 0))) (\<lambda>_.
     py_bind (add_numbers cs (PInt 10) (PInt (- 5))) (\<lambda>r4.
     py_assert (py_eq r4 (PInt 5)))))))))"

text \<open>The float literals of the tests are exact binary fractions: \<open>2.5 = 5 * 2\<^sup>-\<^sup>1\<close>.\<close>

definition test_add_numbers_types :: "classes \<Rightarrow> pyval py" where
  "test_add_numbers_types cs =
     py_bind (add_numbers cs (PFloat (Finite False 5 (- 1))) (PFloat (Finite False 3 (- 1)))) (\<lambda>r1.
     py_bind (py_assert (py_eq r1 (PFloat (Finite False 4 0)))) (\<lambda>_.
     py_bind (add_numbers cs (PInt 1) (PFloat (Finite False 2 0))) (\<lambda>r2.
     py_assert (py_eq r2 (PFloat (Finite False 3 0))))))"

section \<open>Properties\<close>

text \<open>The value a call returned; \<open>None\<close> stands in when the call raised.\<close>

fun the_value :: "(pyerror + pyval) \<times> world \<Rightarrow> pyval" where
  "the_value (Inr v, w) = v"
| "the_value (Inl err, w) = PNone"

text \<open>An \<open>int\<close> operand whose conversion to float is out of range.\<close>

definition overflows :: "pyval \<Rightarrow> bool" where
  "overflows v = (case as_int v of None \<Rightarrow> False | Some i \<Rightarrow> 2 ^ 1024 - 2 ^ 970 \<le> \<bar>i\<bar>)"

text \<open>The sum of two floats that is NaN: a NaN operand, or infinities of opposite sign.\<close>

definition nan_sum :: "pyval \<Rightarrow> pyval \<Rightarrow> bool" where
  "nan_sum a b =
     (a = PFloat NaN \<or> b = PFloat NaN
      \<or> (a = PFloat PosInf \<and> b = PFloat NegInf)
      \<or> (a = PFloat NegInf \<and> b = PFloat PosInf))"

text \<open>
  A value of a built-in type, or an instance of a class with neither \<open>__add__\<close> nor
  \<open>__radd__\<close>.
\<close>

fun plain :: "classes \<Rightarrow> pyval \<Rightarrow> bool" where
  "plain cs (PObj c i) = (add_method (cs c) = None \<and> radd_method (cs c) = None)"
| "plain cs v = True"

text \<open>A program that defines no class with \<open>__add__\<close> or \<open>__radd__\<close>, and a fresh state.\<close>

definition no_classes :: classes where
  "no_classes c = \<lparr>add_method = None, radd_method = None\<rparr>"

definition fresh :: world where
  "fresh = \<lparr>stdout = [], globals = (\<lambda>name. None)\<rparr>"

text \<open>
  An example of a class with a method that keeps state:
  \<^verbatim>\<open>
  calls = 0
  class Counter:
      def __add__(self, other):
          global calls
          calls += 1
          return calls
  \<close>
\<close>

definition counter_add :: pymethod where
  "counter_add self other w =
     (case globals w ''calls'' of
        None \<Rightarrow> (Inl (OtherError ''NameError''), w)
      | Some n \<Rightarrow>
          (case builtin_add n (PInt 1) of
             Inl err \<Rightarrow> (Inl err, w)
           | Inr n' \<Rightarrow> (Inr (Some n'), w\<lparr>globals := (globals w)(''calls'' \<mapsto> n')\<rparr>)))"

definition counter_classes :: classes where
  "counter_classes c = \<lparr>add_method = Some counter_add, radd_method = None\<rparr>"

definition counter_start :: world where
  "counter_start = \<lparr>stdout = [], globals = [''calls'' \<mapsto> PInt 0]\<rparr>"

lemmas float_eval =
  int_to_float_def round53_def too_large_def bit_length.simps signed_def Let_def

lemmas py_eval =
  add_numbers_def hello_world_def py_bind_def py_assert_def py_print_def py_return_def
  py_raise_def

subsection \<open>Facts about \<open>+\<close> and \<open>==\<close>\<close>

lemma bit_length_le_iff: "bit_length n \<le> k \<longleftrightarrow> n < 2 ^ k"
proof (induction n arbitrary: k rule: bit_length.induct)
  case (1 n)
  show ?case
  proof (cases "n = 0")
    case True
    then show ?thesis by (simp add: bit_length.simps)
  next
    case False
    show ?thesis
    proof (cases k)
      case 0
      with False show ?thesis by (simp add: bit_length.simps [of n])
    next
      case (Suc j)
      have "bit_length n \<le> Suc j \<longleftrightarrow> bit_length (n div 2) \<le> j"
        using False by (simp add: bit_length.simps [of n])
      also have "\<dots> \<longleftrightarrow> n div 2 < 2 ^ j"
        using "1" [OF False] by simp
      also have "\<dots> \<longleftrightarrow> n < 2 ^ Suc j"
        by (simp add: div_less_iff_less_mult mult.commute)
      finally show ?thesis using Suc by simp
    qed
  qed
qed

lemma bit_length_eq: "2 ^ j \<le> n \<Longrightarrow> n < 2 ^ Suc j \<Longrightarrow> bit_length n = Suc j"
proof -
  assume a: "2 ^ j \<le> n" and b: "n < 2 ^ Suc j"
  have "bit_length n \<le> Suc j" using b by (simp only: bit_length_le_iff)
  moreover have "\<not> bit_length n \<le> j" using a by (simp only: bit_length_le_iff not_less)
  ultimately show ?thesis by simp
qed

lemma bit_length_bounds:
  assumes "0 < bit_length n"
  shows "2 ^ (bit_length n - 1) \<le> n" and "n < 2 ^ bit_length n"
proof -
  have "\<not> bit_length n \<le> bit_length n - 1" using assms by simp
  then show "2 ^ (bit_length n - 1) \<le> n" by (simp only: bit_length_le_iff not_less)
  have "bit_length n \<le> bit_length n" by simp
  then show "n < 2 ^ bit_length n" by (simp only: bit_length_le_iff)
qed

lemma round53_overflow:
  fixes m :: nat
  shows "(case round53 m 0 of (m', e') \<Rightarrow> too_large m' e') \<longleftrightarrow> 2 ^ 1024 - 2 ^ 970 \<le> m"
proof (cases "bit_length m \<le> 53")
  case True
  then have "m < 2 ^ 53" by (simp only: bit_length_le_iff)
  then have "\<not> 2 ^ 1024 - 2 ^ 970 \<le> m" by simp
  moreover have "round53 m 0 = (m, 0)" using True by (simp add: round53_def)
  ultimately show ?thesis using True by (simp add: too_large_def)
next
  case False
  define k where "k = bit_length m"
  define s where "s = k - 53"
  define q where "q = m div 2 ^ s"
  define r where "r = m mod 2 ^ s"
  define q' where "q' = (if 2 ^ s < 2 * r \<or> (2 * r = 2 ^ s \<and> q mod 2 = 1) then q + 1 else q)"
  have k: "53 < k" using False by (simp add: k_def)
  have ks: "k = s + 53" using k by (simp add: s_def)
  have lo: "2 ^ (k - 1) \<le> m" and hi: "m < 2 ^ k"
    using bit_length_bounds [of m] k by (simp_all add: k_def)
  have m: "m = q * 2 ^ s + r"
    unfolding q_def r_def by (rule div_mult_mod_eq [symmetric])
  have rs: "r < 2 ^ s" by (simp add: r_def)
  have "(2::nat) ^ (k - 1) = 2 ^ 52 * 2 ^ s"
    unfolding power_add [symmetric] using ks by simp
  with lo have "2 ^ 52 * 2 ^ s \<le> m" by simp
  then have qlo: "2 ^ 52 \<le> q"
    unfolding q_def by (simp add: less_eq_div_iff_mult_less_eq)
  have "(2::nat) ^ k = 2 ^ 53 * 2 ^ s"
    unfolding power_add [symmetric] using ks by simp
  with hi have "m < 2 ^ 53 * 2 ^ s" by simp
  then have qhi: "q < 2 ^ 53"
    unfolding q_def by (simp add: div_less_iff_less_mult)
  have rd: "round53 m 0 = (if q' = 2 ^ 53 then (2 ^ 52, int s + 1) else (q', int s))"
    using False by (simp add: round53_def Let_def q'_def q_def r_def s_def k_def)
  have q'b: "q \<le> q'" "q' \<le> q + 1" by (simp_all add: q'_def)
  have bl: "bit_length q' = 53" if "q' \<noteq> 2 ^ 53"
    using bit_length_eq [of 52 q'] qlo q'b qhi that by simp
  have bl52: "bit_length (2 ^ 52) = 53"
    using bit_length_eq [of 52 "2 ^ 52"] by simp
  have tl: "(case round53 m 0 of (m', e') \<Rightarrow> too_large m' e')
      \<longleftrightarrow> (if q' = 2 ^ 53 then 1024 \<le> k else 1025 \<le> k)"
    using bl bl52 by (auto simp: rd too_large_def ks)
  consider "1025 \<le> k" | "k = 1024" | "k \<le> 1023" by linarith
  then show ?thesis
  proof cases
    case 1
    have "(2::nat) ^ 1024 \<le> 2 ^ (k - 1)"
      by (rule power_increasing) (use 1 in simp_all)
    with lo have "(2::nat) ^ 1024 \<le> m" by linarith
    then have "2 ^ 1024 - 2 ^ 970 \<le> m" by simp
    with tl 1 show ?thesis by simp
  next
    case 3
    have "(2::nat) ^ k \<le> 2 ^ 1023"
      by (rule power_increasing) (use 3 in simp_all)
    with hi have "m < 2 ^ 1023" by linarith
    then have "\<not> 2 ^ 1024 - 2 ^ 970 \<le> m" by simp
    with tl 3 show ?thesis by simp
  next
    case 2
    then have s: "s = 971" using ks by simp
    have "q' = 2 ^ 53 \<longleftrightarrow> 2 ^ 1024 - 2 ^ 970 \<le> m"
    proof
      assume e: "q' = 2 ^ 53"
      with qhi have up: "2 ^ s < 2 * r \<or> (2 * r = 2 ^ s \<and> q mod 2 = 1)" and q1: "q' = q + 1"
        by (auto simp: q'_def split: if_splits)
      from q1 e have q: "q = 2 ^ 53 - 1" by simp
      from up have "2 ^ 971 \<le> 2 * r" unfolding s by linarith
      then have "2 ^ 970 \<le> r" by simp
      then show "2 ^ 1024 - 2 ^ 970 \<le> m"
        unfolding m [unfolded s q] by simp
    next
      assume a: "2 ^ 1024 - 2 ^ 970 \<le> m"
      have q: "q = 2 ^ 53 - 1"
      proof (rule ccontr)
        assume "q \<noteq> 2 ^ 53 - 1"
        with qhi have "q \<le> 2 ^ 53 - 2" by simp
        then have "q * 2 ^ 971 \<le> (2 ^ 53 - 2) * 2 ^ 971" by (rule mult_right_mono) simp
        with rs have "m < (2 ^ 53 - 2) * 2 ^ 971 + 2 ^ 971"
          unfolding s using m [unfolded s] by linarith
        with a show False by simp
      qed
      from a have "2 ^ 970 \<le> r"
        unfolding m [unfolded s q] by simp
      then have "2 ^ 971 \<le> 2 * r" by simp
      moreover have "q mod 2 = 1" unfolding q by simp
      ultimately have "2 ^ s < 2 * r \<or> (2 * r = 2 ^ s \<and> q mod 2 = 1)"
        unfolding s by linarith
      then show "q' = 2 ^ 53" unfolding q'_def q by simp
    qed
    with tl 2 show ?thesis by simp
  qed
qed

lemma float_add_commute: "float_add x y = float_add y x"
proof (cases x; cases y)
  fix s1 m1 e1 s2 m2 e2
  assume xy: "x = Finite s1 m1 e1" "y = Finite s2 m2 e2"
  show ?thesis
    by (simp add: xy Let_def min.commute add.commute conj_commute)
qed simp_all

lemma float_add_NaN:
  "float_add f g = NaN \<longleftrightarrow>
     f = NaN \<or> g = NaN \<or> (f = PosInf \<and> g = NegInf) \<or> (f = NegInf \<and> g = PosInf)"
  by (cases f; cases g) (simp_all add: Let_def split: prod.splits)

lemma int_to_float_finite: "int_to_float i = Inr f \<Longrightarrow> \<exists>s m e. f = Finite s m e"
  by (auto simp: int_to_float_def Let_def split: prod.splits if_splits)

lemma int_to_float_error: "int_to_float i = Inl err \<Longrightarrow> err = OverflowError"
  by (auto simp: int_to_float_def Let_def split: prod.splits if_splits)

lemma int_to_float_overflow_iff:
  "int_to_float i = Inl OverflowError \<longleftrightarrow> 2 ^ 1024 - 2 ^ 970 \<le> \<bar>i\<bar>"
proof -
  have "int_to_float i = Inl OverflowError
      \<longleftrightarrow> (case round53 (nat \<bar>i\<bar>) 0 of (m', e') \<Rightarrow> too_large m' e')"
    by (simp add: int_to_float_def split: prod.splits)
  also have "\<dots> \<longleftrightarrow> (2::nat) ^ 1024 - 2 ^ 970 \<le> nat \<bar>i\<bar>"
    by (rule round53_overflow)
  also have "\<dots> \<longleftrightarrow> int (2 ^ 1024 - 2 ^ 970) \<le> \<bar>i\<bar>"
    by (rule le_nat_iff) simp
  finally show ?thesis by simp
qed

lemma int_to_float_result:
  "int_to_float i =
     (if 2 ^ 1024 - 2 ^ 970 \<le> \<bar>i\<bar> then Inl OverflowError
      else Inr (Finite (i < 0) (fst (round53 (nat \<bar>i\<bar>) 0)) (snd (round53 (nat \<bar>i\<bar>) 0))))"
proof (cases "2 ^ 1024 - 2 ^ 970 \<le> \<bar>i\<bar>")
  case True
  then have "int_to_float i = Inl OverflowError"
    by (simp only: int_to_float_overflow_iff)
  with True show ?thesis by simp
next
  case False
  then have "int_to_float i \<noteq> Inl OverflowError"
    by (simp only: int_to_float_overflow_iff not_False_eq_True)
  moreover obtain m e where r: "round53 (nat \<bar>i\<bar>) 0 = (m, e)"
    by (cases "round53 (nat \<bar>i\<bar>) 0")
  ultimately have "\<not> too_large m e"
    by (auto simp: int_to_float_def)
  with r False show ?thesis
    by (simp add: int_to_float_def)
qed

lemma builtin_add_commute_num:
  "is_number a \<Longrightarrow> is_number b \<Longrightarrow> builtin_add a b = builtin_add b a"
  by (cases a; cases b)
     (simp_all add: is_number_def float_add_commute add.commute split: sum.splits)

lemma float_eq_refl: "float_eq f f = (f \<noteq> NaN)"
  by (cases f) simp_all

lemma py_eq_refl: "py_eq x x = (x \<noteq> PFloat NaN)"
  by (cases x) (simp_all add: float_eq_refl)

lemma builtin_add_type_error:
  "is_builtin a \<Longrightarrow> is_builtin b \<Longrightarrow>
     (builtin_add a b = Inl TypeError) =
       ((\<not> is_number a \<or> \<not> is_number b) \<and> \<not> (is_str a \<and> is_str b))"
  by (cases a; cases b)
     (auto simp: is_number_def split: sum.splits dest: int_to_float_error)

lemma py_add_builtin:
  "is_builtin a \<Longrightarrow> is_builtin b \<Longrightarrow> py_add cs a b w = (builtin_add a b, w)"
  by (cases a; cases b) simp_all

lemma add_numbers_builtin:
  "is_builtin a \<Longrightarrow> is_builtin b \<Longrightarrow> add_numbers cs a b w = (builtin_add a b, w)"
  by (simp add: add_numbers_def py_add_builtin)

lemma is_number_builtin: "is_number a \<Longrightarrow> is_builtin a"
  by (cases a) (simp_all add: is_number_def)

lemma add_numbers_number:
  "is_number a \<Longrightarrow> is_number b \<Longrightarrow> add_numbers cs a b w = (builtin_add a b, w)"
  by (simp add: add_numbers_builtin is_number_builtin)

lemma py_add_plain_type_error:
  assumes "plain cs a" and "plain cs b" and "\<not> is_builtin a \<or> \<not> is_builtin b"
  shows "py_add cs a b w = (Inl TypeError, w)"
  using assms
  by (cases a; cases b) (simp_all add: py_bind_def py_return_def py_raise_def)

lemma builtin_add_num_result:
  "is_number a \<Longrightarrow> is_number b \<Longrightarrow>
     (case builtin_add a b of Inl err \<Rightarrow> err = OverflowError | Inr x \<Rightarrow> is_number x)"
  by (cases a; cases b)
     (simp_all add: is_number_def int_to_float_def Let_def split: sum.splits prod.splits)

lemma builtin_add_overflow_iff:
  "is_number a \<Longrightarrow> is_number b \<Longrightarrow>
     (builtin_add a b = Inl OverflowError) =
       ((is_float a \<or> is_float b) \<and> (overflows a \<or> overflows b))"
  by (cases a; cases b) (simp_all add: is_number_def overflows_def int_to_float_result)

lemma float_add_Finite_NaN [simp]:
  "float_add (Finite s m e) g = NaN \<longleftrightarrow> g = NaN"
  "float_add f (Finite s m e) = NaN \<longleftrightarrow> f = NaN"
  by (simp_all add: float_add_NaN)

lemma builtin_add_NaN:
  "is_number a \<Longrightarrow> is_number b \<Longrightarrow>
     (builtin_add a b = Inr (PFloat NaN)) = (builtin_add a b \<noteq> Inl OverflowError \<and> nan_sum a b)"
  by (cases a; cases b)
     (simp_all add: is_number_def nan_sum_def float_add_NaN int_to_float_result)

lemma builtin_add_float_result:
  assumes "is_number a" and "is_number b" and "is_float a \<or> is_float b"
  shows "case builtin_add a b of
           Inr x \<Rightarrow> is_float x \<and> \<not> overflows a \<and> \<not> overflows b
         | Inl err \<Rightarrow> err = OverflowError \<and> (overflows a \<or> overflows b)"
  using assms
  by (cases a; cases b) (simp_all add: is_number_def overflows_def int_to_float_result)

subsection \<open>The claims\<close>

text \<open>
  Claim C1. For every pair of integers \<open>a\<close> and \<open>b\<close>, \<open>add_numbers(a, b)\<close> returns the
  arithmetic sum \<open>a + b\<close>, and the result is an \<open>int\<close>.
\<close>

theorem add_numbers_int_sum:
  "add_numbers cs (PInt a) (PInt b) w = (Inr (PInt (a + b)), w)"
  by (simp add: add_numbers_def)

text \<open>
  Claim C2. \<open>hello_world()\<close> takes no argument and always returns exactly the string
  \<open>Hello, World from Python CI!\<close>; the result is a \<open>str\<close>, and the module's test of both
  facts passes.
\<close>

theorem hello_world_greeting:
  "hello_world w = (Inr (PStr ''Hello, World from Python CI!''), w)
   \<and> is_str (the_value (hello_world w))
   \<and> test_hello_world w = (Inr PNone, w)"
  by (simp add: test_hello_world_def py_eval)

text \<open>
  Claim C7. \<open>add_numbers(2, 3) == 5\<close>, \<open>add_numbers(0, 0) == 0\<close>, \<open>add_numbers(-1, 1) == 0\<close>
  and \<open>add_numbers(10, -5) == 5\<close>: each call returns a value that \<open>==\<close> accepts, and the
  test that asserts the four equations passes.
\<close>

theorem add_numbers_examples:
  "add_numbers cs (PInt 2) (PInt 3) w = (Inr (PInt 5), w)
   \<and> add_numbers cs (PInt 0) (PInt 0) w = (Inr (PInt 0), w)
   \<and> add_numbers cs (PInt (- 1)) (PInt 1) w = (Inr (PInt 0), w)
   \<and> add_numbers cs (PInt 10) (PInt (- 5)) w = (Inr (PInt 5), w)
   \<and> test_add_numbers cs w = (Inr PNone, w)"
  by (simp add: test_add_numbers_def py_eval)

text \<open>
  Claim C10. For every pair of strings \<open>s\<close> and \<open>t\<close>, \<open>add_numbers(s, t)\<close> raises nothing
  and returns the concatenation of \<open>s\<close> and \<open>t\<close>; \<open>add_numbers("ab", "cd") == "abcd"\<close>.
\<close>

theorem add_numbers_str_concat:
  "add_numbers cs (PStr s) (PStr t) w = (Inr (PStr (s @ t)), w)
   \<and> add_numbers cs (PStr ''ab'') (PStr ''cd'') w = (Inr (PStr ''abcd''), w)"
  by (simp add: add_numbers_def)

text \<open>
  Claim C8. Integer addition through \<open>add_numbers\<close> is exact and has no range limit: for
  all integers \<open>a\<close> and \<open>b\<close> the result is an \<open>int\<close> \<open>r\<close> with \<open>r - a = b\<close> and \<open>r - b = a\<close>,
  also beyond 64 bits, where a machine integer would wrap around.
\<close>

theorem add_numbers_int_exact:
  "(\<exists>r. add_numbers cs (PInt a) (PInt b) w = (Inr (PInt r), w) \<and> r - a = b \<and> r - b = a)
   \<and> add_numbers cs (PInt (2 ^ 63)) (PInt (2 ^ 63)) w = (Inr (PInt (2 ^ 64)), w)
   \<and> add_numbers cs (PInt (2 ^ 64 - 1)) (PInt 1) w = (Inr (PInt 18446744073709551616), w)
   \<and> add_numbers cs (PInt (- (10 ^ 40))) (PInt (- 1)) w
       = (Inr (PInt (- 10000000000000000000000000000000000000001)), w)"
  by (simp add: add_numbers_def)

text \<open>
  Claim C6. Run as a program, the module writes the greeting and then the line
  \<open>2 + 3 = 5\<close> to standard output, each followed by a newline, raises nothing and exits
  with status 0. Imported under its own name it writes nothing.
\<close>

theorem run_program_output:
  "run_program fr cs w =
     (0, w\<lparr>stdout := stdout w @ ''Hello, World from Python CI!'' @ [CHR 0x0A]
                        @ ''2 + 3 = 5'' @ [CHR 0x0A]\<rparr>)
   \<and> module_main fr cs ''demo_python'' w = (Inr PNone, w)"
  by (simp add: run_program_def module_main_def py_eval int_to_dec_def nat_to_dec.simps)

text \<open>
  Claim C5, as stated: every non-numeric operand makes \<open>add_numbers\<close> fail with a type
  error. It fails for two strings, which \<open>+\<close> concatenates.
\<close>

theorem add_numbers_str_operands_no_error:
  "\<not> is_number (PStr ''ab'') \<and> \<not> is_number (PStr ''cd'')
   \<and> add_numbers no_classes (PStr ''ab'') (PStr ''cd'') fresh = (Inr (PStr ''abcd''), fresh)
   \<and> fst (add_numbers no_classes (PStr ''ab'') (PStr ''cd'') fresh) \<noteq> Inl TypeError"
  by (simp add: add_numbers_def is_number_def)

text \<open>
  Claim C5, amended. Let each operand be \<open>None\<close>, a \<open>bool\<close>, an \<open>int\<close>, a float, a \<open>str\<close>,
  or an instance of a class that derives from \<open>object\<close> alone and defines neither
  \<open>__add__\<close> nor \<open>__radd__\<close>. Then \<open>add_numbers\<close> fails with \<open>TypeError\<close> exactly when an
  operand is not a number and the operands are not both strings. The function handles no
  exception: its outcome is the outcome of \<open>+\<close>, and here the state is as before the
  call.
\<close>

theorem add_numbers_type_error:
  assumes "plain cs a" and "plain cs b"
  shows "(add_numbers cs a b w = (Inl TypeError, w))
           = ((\<not> is_number a \<or> \<not> is_number b) \<and> \<not> (is_str a \<and> is_str b))
    \<and> (fst (add_numbers cs a b w) = Inl TypeError)
           = ((\<not> is_number a \<or> \<not> is_number b) \<and> \<not> (is_str a \<and> is_str b))
    \<and> snd (add_numbers cs a b w) = w
    \<and> add_numbers cs a b w = py_add cs a b w"
proof (cases "is_builtin a \<and> is_builtin b")
  case True
  then have "add_numbers cs a b w = (builtin_add a b, w)"
    by (simp add: add_numbers_builtin)
  moreover have "(builtin_add a b = Inl TypeError)
      = ((\<not> is_number a \<or> \<not> is_number b) \<and> \<not> (is_str a \<and> is_str b))"
    using True by (simp add: builtin_add_type_error)
  ultimately show ?thesis
    by (simp add: add_numbers_def)
next
  case False
  then have o: "\<not> is_builtin a \<or> \<not> is_builtin b"
    by simp
  have e: "add_numbers cs a b w = (Inl TypeError, w)"
    using py_add_plain_type_error [OF assms o] by (simp add: add_numbers_def)
  have n: "(\<not> is_number a \<or> \<not> is_number b) \<and> \<not> (is_str a \<and> is_str b)"
    using o by (cases a; cases b) (simp_all add: is_number_def)
  from e n show ?thesis
    by (simp add: add_numbers_def)
qed

theorem add_numbers_type_error_witness:
  "plain no_classes (PInt 1) \<and> plain no_classes (PStr ''x'') \<and> plain no_classes (PObj 0 0)
   \<and> add_numbers no_classes (PInt 1) (PStr ''x'') fresh = (Inl TypeError, fresh)
   \<and> add_numbers no_classes (PObj 0 0) (PInt 1) fresh = (Inl TypeError, fresh)
   \<and> add_numbers no_classes (PInt 1) (PInt 1) fresh \<noteq> (Inl TypeError, fresh)"
proof -
  have h1: "plain no_classes (PInt 1)"
    by simp
  have h2: "plain no_classes (PStr ''x'')"
    by simp
  have h3: "plain no_classes (PObj 0 0)"
    by (simp add: no_classes_def)
  show ?thesis
    using h1 h2 h3
      add_numbers_type_error [OF h1 h2, of fresh]
      add_numbers_type_error [OF h3 h1, of fresh]
      add_numbers_type_error [OF h1 h1, of fresh]
    by (simp add: is_number_def)
qed

text \<open>
  Claim C3, as stated: \<open>add_numbers(a, b) == add_numbers(b, a)\<close> for all numbers, NaN
  included. With a NaN operand both calls return NaN, and \<open>NaN == NaN\<close> is false.
\<close>

theorem add_numbers_nan_not_equal:
  "is_number (PFloat NaN) \<and> is_number (PFloat (Finite False 1 0))
   \<and> add_numbers no_classes (PFloat NaN) (PFloat (Finite False 1 0)) fresh
       = (Inr (PFloat NaN), fresh)
   \<and> add_numbers no_classes (PFloat (Finite False 1 0)) (PFloat NaN) fresh
       = (Inr (PFloat NaN), fresh)
   \<and> \<not> py_eq (the_value (add_numbers no_classes (PFloat NaN) (PFloat (Finite False 1 0)) fresh))
              (the_value (add_numbers no_classes (PFloat (Finite False 1 0)) (PFloat NaN) fresh))"
  by (simp add: add_numbers_def is_number_def)

text \<open>
  Claim C3, amended. For all numbers \<open>a\<close> and \<open>b\<close> (\<open>int\<close>, \<open>bool\<close> or float),
  \<open>add_numbers(a, b)\<close> and \<open>add_numbers(b, a)\<close> have the same outcome, all NaNs taken as
  one value. Both calls raise \<open>OverflowError\<close> exactly when one operand is a float and the
  other an \<open>int\<close> of magnitude \<open>2\<^sup>1\<^sup>0\<^sup>2\<^sup>4 - 2\<^sup>9\<^sup>7\<^sup>0\<close> or more, and then the comparison
  \<open>add_numbers(a, b) == add_numbers(b, a)\<close> raises it too. Otherwise both calls return the
  same number, which is NaN exactly when an operand is NaN or the operands are infinities
  of opposite sign: then the comparison is false, and in every other case it is true.
\<close>

theorem add_numbers_commutes:
  assumes "is_number a" and "is_number b"
  shows "add_numbers cs b a w = add_numbers cs a b w
    \<and> (case fst (add_numbers cs a b w) of
          Inl err \<Rightarrow> err = OverflowError
        | Inr x \<Rightarrow> is_number x \<and> py_eq x x = (x \<noteq> PFloat NaN))
    \<and> (fst (add_numbers cs a b w) = Inr (PFloat NaN)) =
        (fst (add_numbers cs a b w) \<noteq> Inl OverflowError \<and> nan_sum a b)
    \<and> (fst (add_numbers cs a b w) = Inl OverflowError) =
        ((is_float a \<or> is_float b) \<and> (overflows a \<or> overflows b))
    \<and> (fst (add_numbers cs b a w) = Inl OverflowError) =
        ((is_float a \<or> is_float b) \<and> (overflows a \<or> overflows b))
    \<and> py_bind (add_numbers cs a b) (\<lambda>x.
        py_bind (add_numbers cs b a) (\<lambda>y. py_return (PBool (py_eq x y)))) w
        = (if (is_float a \<or> is_float b) \<and> (overflows a \<or> overflows b)
           then (Inl OverflowError, w)
           else (Inr (PBool (\<not> nan_sum a b)), w))"
proof -
  have ab: "add_numbers cs a b w = (builtin_add a b, w)"
    using assms by (rule add_numbers_number)
  have ba: "add_numbers cs b a w = (builtin_add a b, w)"
    using add_numbers_number [OF assms(2) assms(1)] builtin_add_commute_num [OF assms]
    by simp
  have c: "add_numbers cs b a w = add_numbers cs a b w"
    using ab ba by simp
  have r: "case builtin_add a b of
             Inl err \<Rightarrow> err = OverflowError
           | Inr x \<Rightarrow> is_number x"
    using assms by (rule builtin_add_num_result)
  have n: "(builtin_add a b = Inr (PFloat NaN)) =
        (builtin_add a b \<noteq> Inl OverflowError \<and> nan_sum a b)"
    using assms by (rule builtin_add_NaN)
  have v: "(builtin_add a b = Inl OverflowError) =
        ((is_float a \<or> is_float b) \<and> (overflows a \<or> overflows b))"
    using assms by (rule builtin_add_overflow_iff)
  have e: "py_bind (add_numbers cs a b) (\<lambda>x.
        py_bind (add_numbers cs b a) (\<lambda>y. py_return (PBool (py_eq x y)))) w
        = (if (is_float a \<or> is_float b) \<and> (overflows a \<or> overflows b)
           then (Inl OverflowError, w)
           else (Inr (PBool (\<not> nan_sum a b)), w))"
  proof (cases "builtin_add a b")
    case (Inl err)
    with r have "builtin_add a b = Inl OverflowError"
      by simp
    with v show ?thesis
      by (simp add: py_bind_def ab)
  next
    case (Inr x)
    with v have nv: "\<not> ((is_float a \<or> is_float b) \<and> (overflows a \<or> overflows b))"
      by simp
    from Inr n have "(x = PFloat NaN) = nan_sum a b"
      by simp
    with nv Inr show ?thesis
      by (simp add: py_bind_def py_return_def ab ba py_eq_refl)
  qed
  from r have r': "case fst (add_numbers cs a b w) of
          Inl err \<Rightarrow> err = OverflowError
        | Inr x \<Rightarrow> is_number x \<and> py_eq x x = (x \<noteq> PFloat NaN)"
    by (simp add: ab py_eq_refl split: sum.splits)
  from c r' n v e show ?thesis
    by (simp only: ab ba fst_conv)
qed

theorem add_numbers_commutes_witness:
  "is_number (PInt 1) \<and> is_number (PFloat (Finite False 2 0))
   \<and> add_numbers no_classes (PFloat (Finite False 2 0)) (PInt 1) fresh
       = add_numbers no_classes (PInt 1) (PFloat (Finite False 2 0)) fresh
   \<and> add_numbers no_classes (PInt 1) (PFloat (Finite False 2 0)) fresh
       = (Inr (PFloat (Finite False 3 0)), fresh)
   \<and> py_eq (PFloat (Finite False 3 0)) (PFloat (Finite False 3 0))
   \<and> py_bind (add_numbers no_classes (PInt 1) (PFloat (Finite False 2 0))) (\<lambda>x.
        py_bind (add_numbers no_classes (PFloat (Finite False 2 0)) (PInt 1)) (\<lambda>y.
          py_return (PBool (py_eq x y)))) fresh
       = (Inr (PBool True), fresh)"
proof -
  have h1: "is_number (PInt 1)"
    by (simp add: is_number_def)
  have h2: "is_number (PFloat (Finite False 2 0))"
    by (simp add: is_number_def)
  have v: "add_numbers no_classes (PInt 1) (PFloat (Finite False 2 0)) fresh
       = (Inr (PFloat (Finite False 3 0)), fresh)"
    by (simp add: add_numbers_def float_eval)
  have o: "\<not> overflows (PInt 1)" "\<not> overflows (PFloat (Finite False 2 0))"
    by (simp_all add: overflows_def)
  have s: "\<not> nan_sum (PInt 1) (PFloat (Finite False 2 0))"
    by (simp add: nan_sum_def)
  show ?thesis
    using h1 h2 v o s add_numbers_commutes [OF h1 h2, of no_classes fresh]
    by simp
qed

text \<open>
  Claim C4, as stated: whenever an operand is a float, the result is a float. An \<open>int\<close>
  operand is converted to float first, and for \<open>10 ** 400\<close> the conversion raises
  \<open>OverflowError\<close>: no float is returned.
\<close>

theorem add_numbers_huge_int_raises:
  "is_number (PInt (10 ^ 400)) \<and> is_float (PFloat (Finite False 1 0))
   \<and> add_numbers no_classes (PInt (10 ^ 400)) (PFloat (Finite False 1 0)) fresh
       = (Inl OverflowError, fresh)"
proof -
  have "int_to_float (10 ^ 400) = Inl OverflowError"
    by (simp add: int_to_float_overflow_iff)
  then show ?thesis
    by (simp add: add_numbers_def is_number_def)
qed

text \<open>
  Claim C4, amended. For numbers \<open>a\<close> and \<open>b\<close> of which at least one is a float,
  \<open>add_numbers\<close> returns a float when every \<open>int\<close> operand has a magnitude below
  \<open>2\<^sup>1\<^sup>0\<^sup>2\<^sup>4 - 2\<^sup>9\<^sup>7\<^sup>0\<close>, and raises \<open>OverflowError\<close> otherwise (the \<open>int\<close> is too large to convert
  to float). \<open>add_numbers(2.5, 1.5) == 4.0\<close> and \<open>add_numbers(1, 2.0) == 3.0\<close>, and the
  test of the two equations passes.
\<close>

theorem add_numbers_float_promotion:
  assumes "is_number a" and "is_number b" and "is_float a \<or> is_float b"
  shows "(case fst (add_numbers cs a b w) of
            Inr x \<Rightarrow> is_float x \<and> \<not> overflows a \<and> \<not> overflows b
          | Inl err \<Rightarrow> err = OverflowError \<and> (overflows a \<or> overflows b))
    \<and> add_numbers cs (PFloat (Finite False 5 (- 1))) (PFloat (Finite False 3 (- 1))) w
        = (Inr (PFloat (Finite False 8 (- 1))), w)
    \<and> py_eq (PFloat (Finite False 8 (- 1))) (PFloat (Finite False 4 0))
    \<and> add_numbers cs (PInt 1) (PFloat (Finite False 2 0)) w = (Inr (PFloat (Finite False 3 0)), w)
    \<and> test_add_numbers_types cs w = (Inr PNone, w)"
proof -
  have p: "case fst (add_numbers cs a b w) of
            Inr x \<Rightarrow> is_float x \<and> \<not> overflows a \<and> \<not> overflows b
          | Inl err \<Rightarrow> err = OverflowError \<and> (overflows a \<or> overflows b)"
    using builtin_add_float_result [OF assms] by (simp add: add_numbers_number assms)
  have e1: "add_numbers cs (PFloat (Finite False 5 (- 1))) (PFloat (Finite False 3 (- 1))) w
        = (Inr (PFloat (Finite False 8 (- 1))), w)"
    by (simp add: add_numbers_def float_eval)
  have q1: "py_eq (PFloat (Finite False 8 (- 1))) (PFloat (Finite False 4 0))"
    by (simp add: signed_def)
  have e2: "add_numbers cs (PInt 1) (PFloat (Finite False 2 0)) w
        = (Inr (PFloat (Finite False 3 0)), w)"
    by (simp add: add_numbers_def float_eval)
  have t: "test_add_numbers_types cs w = (Inr PNone, w)"
    by (simp add: test_add_numbers_types_def py_bind_def py_assert_def e1 e2 signed_def)
  from p e1 q1 e2 t show ?thesis by blast
qed

theorem add_numbers_float_promotion_witness:
  "is_number (PBool True) \<and> is_number (PFloat (Finite False 5 (- 1)))
   \<and> (is_float (PBool True) \<or> is_float (PFloat (Finite False 5 (- 1))))
   \<and> add_numbers no_classes (PBool True) (PFloat (Finite False 5 (- 1))) fresh
       = (Inr (PFloat (Finite False 7 (- 1))), fresh)
   \<and> is_float (PFloat (Finite False 7 (- 1)))
   \<and> test_add_numbers_types no_classes fresh = (Inr PNone, fresh)"
proof -
  have h1: "is_number (PBool True)"
    by (simp add: is_number_def)
  have h2: "is_number (PFloat (Finite False 5 (- 1)))"
    by (simp add: is_number_def)
  have h3: "is_float (PBool True) \<or> is_float (PFloat (Finite False 5 (- 1)))"
    by simp
  have v: "add_numbers no_classes (PBool True) (PFloat (Finite False 5 (- 1))) fresh
       = (Inr (PFloat (Finite False 7 (- 1))), fresh)"
    by (simp add: add_numbers_def float_eval)
  show ?thesis
    using h1 h2 h3 v add_numbers_float_promotion [OF h1 h2 h3, of no_classes fresh]
    by simp
qed

text \<open>
  Claim C9, as stated: \<open>add_numbers\<close> is a pure function for all arguments. With an
  instance of the class \<open>Counter\<close> as operand, two calls with the same arguments return 1
  and then 2, and each call changes the module-level variable \<open>calls\<close>.
\<close>

theorem add_numbers_stateful_operand:
  "py_bind (add_numbers counter_classes (PObj 0 0) (PInt 1)) (\<lambda>x.
     py_bind (add_numbers counter_classes (PObj 0 0) (PInt 1)) (\<lambda>y. py_return (x, y)))
     counter_start
     = (Inr (PInt 1, PInt 2), counter_start\<lparr>globals := [''calls'' \<mapsto> PInt 2]\<rparr>)
   \<and> \<not> py_eq (PInt 1) (PInt 2)
   \<and> globals counter_start ''calls'' = Some (PInt 0)
   \<and> globals (snd (add_numbers counter_classes (PObj 0 0) (PInt 1) counter_start)) ''calls''
       = Some (PInt 1)"
  by (simp add: add_numbers_def py_bind_def py_return_def counter_classes_def counter_add_def
      counter_start_def)

text \<open>
  Claim C9, amended. \<open>hello_world\<close> is a deterministic, stateless pure function.
  \<open>add_numbers\<close> with operands of the built-in types \<open>None\<close>, \<open>bool\<close>, \<open>int\<close>, float and
  \<open>str\<close> leaves the state as it found it, and its outcome is the same from any two states
  and under any classes the program defines; two calls with equal arguments have the same
  outcome, and the two results compare equal under \<open>==\<close> unless the result is NaN.
  Nothing is claimed for an operand that is an instance of a class defined by a program.
\<close>

theorem functions_are_pure:
  assumes "is_builtin a" and "is_builtin b"
  shows "snd (hello_world w) = w
    \<and> fst (hello_world w) = fst (hello_world w')
    \<and> snd (add_numbers cs a b w) = w
    \<and> fst (add_numbers cs a b w) = fst (add_numbers cs' a b w')
    \<and> py_bind (add_numbers cs a b) (\<lambda>x.
        py_bind (add_numbers cs a b) (\<lambda>y. py_return (PBool (py_eq x y)))) w
        = (case fst (add_numbers cs a b w) of
             Inl err \<Rightarrow> (Inl err, w)
           | Inr v \<Rightarrow> (Inr (PBool (v \<noteq> PFloat NaN)), w))"
  by (simp add: add_numbers_builtin [OF assms] hello_world_def py_bind_def py_return_def
      py_eq_refl split: sum.splits)

theorem functions_are_pure_witness:
  "is_builtin (PFloat PosInf) \<and> is_builtin (PFloat NegInf)
   \<and> add_numbers counter_classes (PFloat PosInf) (PFloat NegInf) counter_start
       = (Inr (PFloat NaN), counter_start)
   \<and> fst (add_numbers counter_classes (PFloat PosInf) (PFloat NegInf) counter_start)
       = fst (add_numbers no_classes (PFloat PosInf) (PFloat NegInf) fresh)
   \<and> py_bind (add_numbers counter_classes (PFloat PosInf) (PFloat NegInf)) (\<lambda>x.
        py_bind (add_numbers counter_classes (PFloat PosInf) (PFloat NegInf)) (\<lambda>y.
          py_return (PBool (py_eq x y)))) counter_start
       = (Inr (PBool False), counter_start)"
proof -
  have h1: "is_builtin (PFloat PosInf)"
    by simp
  have h2: "is_builtin (PFloat NegInf)"
    by simp
  have v: "add_numbers counter_classes (PFloat PosInf) (PFloat NegInf) counter_start
       = (Inr (PFloat NaN), counter_start)"
    by (simp add: add_numbers_def)
  show ?thesis
    using h1 h2 v
      functions_are_pure [OF h1 h2, where w = counter_start and w' = fresh
        and cs = counter_classes and cs' = no_classes]
    by simp
qed

end
